theory Spec2Isabelle
  imports Main
begin

section \<open>Python values used by generate-icon.py\<close>

text \<open>
  The script raises no exception of its own; every failure is one of Python's built-in
  exceptions. \<open>TypeError\<close>: an operation on \<open>None\<close>. \<open>OSError\<close>: \<open>open\<close> fails.
  \<open>ValueError\<close>: \<open>int\<close> of a string that is no integer literal. \<open>RecursionError\<close>: the
  interpreter's recursion limit is reached.
\<close>

datatype error = TypeError | OSError | ValueError | RecursionError

subsection \<open>Strings\<close>

text \<open>The characters \<open>str.strip()\<close> removes (the ASCII white space of Python).\<close>

definition py_isspace :: "char \<Rightarrow> bool" where
  "py_isspace c \<longleftrightarrow>
     c \<in> set [CHR '' '', CHR 0x09, CHR 0x0A, CHR 0x0B, CHR 0x0C, CHR 0x0D,
              CHR 0x1C, CHR 0x1D, CHR 0x1E, CHR 0x1F]"

definition strip :: "string \<Rightarrow> string" where
  "strip s = rev (dropWhile py_isspace (rev (dropWhile py_isspace s)))"

definition startswith :: "string \<Rightarrow> string \<Rightarrow> bool" where
  "startswith s p \<longleftrightarrow> take (length p) s = p"

text \<open>\<open>s.split(c)\<close> for a separator of one character: never empty, empty fields kept.\<close>

fun split :: "char \<Rightarrow> string \<Rightarrow> string list" where
  "split c [] = [[]]"
| "split c (x # xs) =
     (if x = c then [] # split c xs
      else (case split c xs of w # ws \<Rightarrow> (x # w) # ws | [] \<Rightarrow> [[x]]))"

fun join :: "string \<Rightarrow> string list \<Rightarrow> string" where
  "join sep [] = []"
| "join sep [x] = x"
| "join sep (x # y # ys) = x @ sep @ join sep (y # ys)"

text \<open>
  \<open>int(v)\<close> on a string: white space around the literal is dropped, one sign is allowed,
  then decimal digits, with single underscores between digits. (Interpreters from 3.11 on
  also refuse a literal of more than 4300 digits; no index file of this development has
  one.)
\<close>

definition digit_val :: "char \<Rightarrow> nat option" where
  "digit_val c =
     map_of [(CHR ''0'', 0), (CHR ''1'', 1), (CHR ''2'', 2), (CHR ''3'', 3), (CHR ''4'', 4),
             (CHR ''5'', 5), (CHR ''6'', 6), (CHR ''7'', 7), (CHR ''8'', 8), (CHR ''9'', 9)] c"

fun digits :: "bool \<Rightarrow> nat \<Rightarrow> string \<Rightarrow> nat option" where
  "digits prev acc [] = (if prev then Some acc else None)"
| "digits prev acc (c # cs) =
     (if c = CHR ''_'' then (if prev then digits False acc cs else None)
      else (case digit_val c of
              None \<Rightarrow> None
            | Some d \<Rightarrow> digits True (10 * acc + d) cs))"

definition py_int :: "string \<Rightarrow> error + int" where
  "py_int v =
     (let t = strip v;
          r = (case t of
                 c # cs \<Rightarrow>
                   if c = CHR ''-'' then map_option (\<lambda>n. - int n) (digits False 0 cs)
                   else if c = CHR ''+'' then map_option int (digits False 0 cs)
                   else map_option int (digits False 0 t)
               | [] \<Rightarrow> None)
      in case r of None \<Rightarrow> Inl ValueError | Some i \<Rightarrow> Inr i)"

text \<open>\<open>sys.maxsize\<close> of a 64-bit interpreter.\<close>

definition sys_maxsize :: int where
  "sys_maxsize = 2 ^ 63 - 1"

subsection \<open>pathlib paths\<close>

text \<open>
  A \<open>pathlib.Path\<close> on POSIX: a root (\<open>''''\<close>, \<open>''/''\<close> or \<open>''//''\<close>) and the components.
  Parsing a string drops empty components and \<open>.\<close>; two leading slashes, and only two,
  are kept as the root.
\<close>

datatype Path = Path (path_root: string) (path_parts: "string list")

definition parse_root :: "string \<Rightarrow> string" where
  "parse_root s =
     (if startswith s ''/'' then
        (if startswith s ''//'' \<and> \<not> startswith s ''///'' then ''//'' else ''/'')
      else '''')"

definition Path_of :: "string \<Rightarrow> Path" where
  "Path_of s = Path (parse_root s) (filter (\<lambda>p. p \<noteq> '''' \<and> p \<noteq> ''.'') (split CHR ''/'' s))"

text \<open>\<open>p / q\<close>: an anchored right operand replaces the left one.\<close>

definition joinpath :: "Path \<Rightarrow> Path \<Rightarrow> Path" where
  "joinpath p q =
     (if path_root q \<noteq> '''' then q
      else Path (path_root p) (path_parts p @ path_parts q))"

definition str :: "Path \<Rightarrow> string" where
  "str p =
     (if path_root p = '''' \<and> path_parts p = [] then ''.''
      else path_root p @ join ''/'' (path_parts p))"

text \<open>\<open>str(x)\<close> where \<open>x\<close> may be \<open>None\<close>.\<close>

definition str_opt :: "Path option \<Rightarrow> string" where
  "str_opt d = (case d of None \<Rightarrow> ''None'' | Some p \<Rightarrow> str p)"

subsection \<open>The file system the script reads\<close>

text \<open>
  \<open>home\<close> is \<open>Path.home()\<close>; \<open>is_dir\<close>, \<open>read_lines\<close> and \<open>path_exists\<close> answer
  \<open>Path.is_dir()\<close>, \<open>open(..., "r")\<close> followed by iteration over the lines (\<open>None\<close> when
  \<open>open\<close> raises) and \<open>os.path.exists\<close>, each for the path written as a string.
\<close>

record fs =
  home :: Path
  is_dir :: "string \<Rightarrow> bool"
  read_lines :: "string \<Rightarrow> string list option"
  path_exists :: "string \<Rightarrow> bool"

section \<open>Themes and their subdirectories\<close>

datatype SubdirType = Fixed | Scalable

text \<open>
  Every attribute of \<open>ThemeSubdirectory\<close> starts as \<open>None\<close>. The back reference
  \<open>self.theme\<close> is kept as the owning theme's \<open>path\<close>, the only attribute of the owner
  that is read once the subdirectory is built (in \<open>full_path\<close>).
\<close>

record ThemeSubdirectory =
  relpath :: Path
  theme_path :: Path
  subdir_type :: "SubdirType option"
  subdir_size :: "int option"
  min_size :: "int option"
  max_size :: "int option"
  scale :: "int option"

datatype Theme =
  Theme (path: Path) (index_file: Path)
        (parents: "Theme list option") (directories: "ThemeSubdirectory list option")

text \<open>\<open>THEME_CACHE\<close>: created empty at line 9; no statement of the script stores into it.\<close>

definition THEME_CACHE :: "string \<Rightarrow> Theme option" where
  "THEME_CACHE = Map.empty"

subsection \<open>\<open>ThemeSubdirectory.__init__\<close>\<close>

text \<open>The body of \<open>if len(split_line) == 2\<close> at lines 92 to 106.\<close>

definition subdir_set_key :: "string list \<Rightarrow> ThemeSubdirectory \<Rightarrow> error + ThemeSubdirectory" where
  "subdir_set_key split_line self =
     (case split_line of
        [k, v] \<Rightarrow>
          if k = ''Type'' then
            (if v = ''Fixed'' then Inr (self\<lparr>subdir_type := Some Fixed\<rparr>)
             else if v = ''Scalable'' then Inr (self\<lparr>subdir_type := Some Scalable\<rparr>)
             else Inr self)
          else if k = ''Size'' then
            (case py_int v of Inl e \<Rightarrow> Inl e | Inr i \<Rightarrow> Inr (self\<lparr>subdir_size := Some i\<rparr>))
          else if k = ''MinSize'' then
            (case py_int v of Inl e \<Rightarrow> Inl e | Inr i \<Rightarrow> Inr (self\<lparr>min_size := Some i\<rparr>))
          else if k = ''MaxSize'' then
            (case py_int v of Inl e \<Rightarrow> Inl e | Inr i \<Rightarrow> Inr (self\<lparr>max_size := Some i\<rparr>))
          else if k = ''Scale'' then
            (case py_int v of Inl e \<Rightarrow> Inl e | Inr i \<Rightarrow> Inr (self\<lparr>scale := Some i\<rparr>))
          else Inr self
      | _ \<Rightarrow> Inr self)"

text \<open>
  The loop over the lines of the index file (lines 85 to 109); \<open>header\<close> is
  \<open>f"[{str(relpath)}]"\<close> and \<open>read\<close> the flag of the same name.
\<close>

fun subdir_lines ::
  "string \<Rightarrow> string list \<Rightarrow> bool \<Rightarrow> ThemeSubdirectory \<Rightarrow> error + ThemeSubdirectory" where
  "subdir_lines header [] read self = Inr self"
| "subdir_lines header (l # ls) read self =
     (let line = strip l in
      if read \<and> startswith line ''['' then Inr self
      else (case (if read then subdir_set_key (split CHR ''='' line) self else Inr self) of
              Inl e \<Rightarrow> Inl e
            | Inr self' \<Rightarrow> subdir_lines header ls (read \<or> line = header) self'))"

definition ThemeSubdirectory_init :: "fs \<Rightarrow> Path \<Rightarrow> Theme \<Rightarrow> error + ThemeSubdirectory" where
  "ThemeSubdirectory_init fs rel theme =
     (let self = \<lparr>relpath = rel, theme_path = path theme, subdir_type = None,
                  subdir_size = None, min_size = None, max_size = None, scale = None\<rparr>
      in case read_lines fs (str (index_file theme)) of
           None \<Rightarrow> Inl OSError
         | Some ls \<Rightarrow>
             (case subdir_lines (''['' @ str rel @ '']'') ls False self of
                Inl e \<Rightarrow> Inl e
              | Inr self' \<Rightarrow>
                  Inr (if scale self' = None then self'\<lparr>scale := Some 1\<rparr> else self')))"

definition full_path :: "ThemeSubdirectory \<Rightarrow> Path" where
  "full_path self = joinpath (theme_path self) (relpath self)"

subsection \<open>\<open>Theme\<close>\<close>

fun first_theme_directory :: "fs \<Rightarrow> string \<Rightarrow> Path list \<Rightarrow> Path option" where
  "first_theme_directory fs theme_name [] = None"
| "first_theme_directory fs theme_name (icon_theme_directory # rest) =
     (let theme_directory = joinpath icon_theme_directory (Path_of theme_name)
      in if is_dir fs (str theme_directory) then Some theme_directory
         else first_theme_directory fs theme_name rest)"

definition get_theme_directory :: "fs \<Rightarrow> string \<Rightarrow> Path option" where
  "get_theme_directory fs theme_name =
     first_theme_directory fs theme_name
       [joinpath (home fs) (Path_of ''.local/share/icons''), Path_of ''/usr/share/icons'']"

text \<open>A list comprehension whose element expression may raise: the first error ends it.\<close>

fun comprehension :: "('a \<Rightarrow> error + 'b) \<Rightarrow> 'a list \<Rightarrow> error + 'b list" where
  "comprehension f [] = Inr []"
| "comprehension f (x # xs) =
     (case f x of
        Inl e \<Rightarrow> Inl e
      | Inr y \<Rightarrow> (case comprehension f xs of Inl e \<Rightarrow> Inl e | Inr ys \<Rightarrow> Inr (y # ys)))"

text \<open>
  The body of \<open>if len(split_line) == 2\<close> in \<open>Theme.__init__\<close> (lines 56 to 63):
  two \<open>if\<close> statements, one after the other. \<open>from_name\<close> is
  \<open>Theme.from_theme_name\<close> as it can be called from this frame.
\<close>

definition theme_set_key ::
  "(string \<Rightarrow> error + Theme) \<Rightarrow> fs \<Rightarrow> string list \<Rightarrow> Theme \<Rightarrow> error + Theme" where
  "theme_set_key from_name fs split_line self =
     (case split_line of
        [k, v] \<Rightarrow>
          (let vs = split CHR '','' v in
           case (if k = ''Inherits'' then
                   (case comprehension from_name vs of
                      Inl e \<Rightarrow> Inl e
                    | Inr ps \<Rightarrow>
                        Inr (Theme (path self) (index_file self) (Some ps) (directories self)))
                 else Inr self) of
             Inl e \<Rightarrow> Inl e
           | Inr self1 \<Rightarrow>
               if k = ''Directories'' then
                 (case comprehension (\<lambda>rel. ThemeSubdirectory_init fs (Path_of rel) self1) vs of
                    Inl e \<Rightarrow> Inl e
                  | Inr ds \<Rightarrow>
                      Inr (Theme (path self1) (index_file self1) (parents self1) (Some ds)))
               else Inr self1)
      | _ \<Rightarrow> Inr self)"

text \<open>The loop of \<open>Theme.__init__\<close> over the lines of the index file (lines 50 to 63).\<close>

fun theme_lines ::
  "(string \<Rightarrow> error + Theme) \<Rightarrow> fs \<Rightarrow> string list \<Rightarrow> Theme \<Rightarrow> error + Theme" where
  "theme_lines from_name fs [] self = Inr self"
| "theme_lines from_name fs (l # ls) self =
     (let line = strip l in
      if startswith line ''['' \<and> line \<noteq> ''[Icon Theme]'' then Inr self
      else (case theme_set_key from_name fs (split CHR ''='' line) self of
              Inl e \<Rightarrow> Inl e
            | Inr self' \<Rightarrow> theme_lines from_name fs ls self'))"

text \<open>
  Constructing a theme constructs its parents, which construct theirs: the first argument
  bounds the number of nested \<open>Theme.__init__\<close> frames, as the interpreter's recursion
  limit does, and \<open>RecursionError\<close> is raised when it is used up. \<open>Theme(None)\<close> fails at
  \<open>theme_directory / "index.theme"\<close>.
\<close>

fun Theme_init :: "nat \<Rightarrow> fs \<Rightarrow> Path option \<Rightarrow> error + Theme"
  and check_cache_before_creation :: "nat \<Rightarrow> fs \<Rightarrow> Path option \<Rightarrow> error + Theme"
  and from_theme_name :: "nat \<Rightarrow> fs \<Rightarrow> string \<Rightarrow> error + Theme" where
  "from_theme_name n fs theme_name =
     check_cache_before_creation n fs (get_theme_directory fs theme_name)"
| "check_cache_before_creation n fs theme_directory =
     (if str_opt theme_directory \<in> dom THEME_CACHE
      then Inr (the (THEME_CACHE (str_opt theme_directory)))
      else Theme_init n fs theme_directory)"
| "Theme_init 0 fs theme_directory = Inl RecursionError"
| "Theme_init (Suc n) fs None = Inl TypeError"
| "Theme_init (Suc n) fs (Some theme_directory) =
     (let index = joinpath theme_directory (Path_of ''index.theme'') in
      case read_lines fs (str index) of
        None \<Rightarrow> Inl OSError
      | Some ls \<Rightarrow>
          theme_lines (from_theme_name n fs) fs ls (Theme theme_directory index None None))"

definition has_parents :: "Theme \<Rightarrow> bool" where
  "has_parents self \<longleftrightarrow> parents self \<noteq> None \<and> length (the (parents self)) \<noteq> 0"

section \<open>Size matching\<close>

text \<open>
  \<open>directory_matches_size\<close> returns \<open>True\<close>, \<open>False\<close> or, when the type is neither
  \<open>Fixed\<close> nor \<open>Scalable\<close>, falls off its end and returns \<open>None\<close>: the result is a
  \<open>bool option\<close>, read by \<open>if\<close> through \<open>truthy\<close>. The chained comparison
  \<open>min_size <= icon_size <= max_size\<close> reads \<open>max_size\<close> only when its first half holds.
  The requested scale is the integer the script passes.
\<close>

definition directory_matches_size ::
  "ThemeSubdirectory \<Rightarrow> int \<Rightarrow> int \<Rightarrow> error + bool option" where
  "directory_matches_size subdir icon_size icon_scale =
     (if scale subdir \<noteq> Some icon_scale then Inr (Some False)
      else if subdir_type subdir = Some Fixed then
        Inr (Some (subdir_size subdir = Some icon_size))
      else if subdir_type subdir = Some Scalable then
        (case min_size subdir of
           None \<Rightarrow> Inl TypeError
         | Some lo \<Rightarrow>
             if lo \<le> icon_size then
               (case max_size subdir of
                  None \<Rightarrow> Inl TypeError
                | Some hi \<Rightarrow> Inr (Some (icon_size \<le> hi)))
             else Inr (Some False))
      else Inr None)"

definition truthy :: "bool option \<Rightarrow> bool" where
  "truthy v = (case v of None \<Rightarrow> False | Some b \<Rightarrow> b)"

text \<open>\<open>a * b\<close> where either operand may be \<open>None\<close>.\<close>

definition py_mult :: "int option \<Rightarrow> int option \<Rightarrow> error + int" where
  "py_mult a b = (case (a, b) of (Some x, Some y) \<Rightarrow> Inr (x * y) | _ \<Rightarrow> Inl TypeError)"

definition directory_size_distance :: "ThemeSubdirectory \<Rightarrow> int \<Rightarrow> int \<Rightarrow> error + int" where
  "directory_size_distance subdir icon_size icon_scale =
     (let icon_dimension = icon_size * icon_scale in
      if subdir_type subdir = Some Fixed then
        (case py_mult (subdir_size subdir) (scale subdir) of
           Inl e \<Rightarrow> Inl e
         | Inr d \<Rightarrow> Inr (abs (d - icon_dimension)))
      else if subdir_type subdir = Some Scalable then
        (case py_mult (min_size subdir) (scale subdir) of
           Inl e \<Rightarrow> Inl e
         | Inr lo \<Rightarrow>
             if icon_dimension < lo then Inr (lo - icon_dimension)
             else
               (case py_mult (max_size subdir) (scale subdir) of
                  Inl e \<Rightarrow> Inl e
                | Inr hi \<Rightarrow>
                    if icon_dimension > hi then Inr (icon_dimension - hi) else Inr 0))
      else Inr sys_maxsize)"

section \<open>Icon lookup\<close>

definition extensions :: "string list" where
  "extensions = [''png'', ''svg'', ''xpm'']"

text \<open>\<open>f"{subdir.full_path()}/{iconname}.{extension}"\<close>\<close>

definition icon_filename :: "ThemeSubdirectory \<Rightarrow> string \<Rightarrow> string \<Rightarrow> string" where
  "icon_filename subdir iconname extension =
     str (full_path subdir) @ ''/'' @ iconname @ ''.'' @ extension"

text \<open>
  Both loops of \<open>lookup_icon\<close> run over the subdirectories and, for each, over the three
  extensions: over \<open>List.product dirs extensions\<close>, in that order.

  The first loop (lines 145 to 150).
\<close>

fun lookup_exact ::
  "fs \<Rightarrow> string \<Rightarrow> int \<Rightarrow> int \<Rightarrow> (ThemeSubdirectory \<times> string) list \<Rightarrow> error + string option"
  where
  "lookup_exact fs iconname icon_size icon_scale [] = Inr None"
| "lookup_exact fs iconname icon_size icon_scale ((subdir, extension) # rest) =
     (case directory_matches_size subdir icon_size icon_scale of
        Inl e \<Rightarrow> Inl e
      | Inr m \<Rightarrow>
          if truthy m \<and> path_exists fs (icon_filename subdir iconname extension)
          then Inr (Some (icon_filename subdir iconname extension))
          else lookup_exact fs iconname icon_size icon_scale rest)"

text \<open>
  The second loop (lines 154 to 159), on the pair \<open>(closest_filename, minimal_size)\<close>;
  the distance is computed only for a file that exists.
\<close>

fun lookup_closest ::
  "fs \<Rightarrow> string \<Rightarrow> int \<Rightarrow> int \<Rightarrow> (ThemeSubdirectory \<times> string) list \<Rightarrow>
   string option \<times> int \<Rightarrow> error + (string option \<times> int)" where
  "lookup_closest fs iconname icon_size icon_scale [] acc = Inr acc"
| "lookup_closest fs iconname icon_size icon_scale ((subdir, extension) # rest)
     (closest_filename, minimal_size) =
     (if path_exists fs (icon_filename subdir iconname extension) then
        (case directory_size_distance subdir icon_size icon_scale of
           Inl e \<Rightarrow> Inl e
         | Inr d \<Rightarrow>
             if d < minimal_size
             then lookup_closest fs iconname icon_size icon_scale rest
                    (Some (icon_filename subdir iconname extension), d)
             else lookup_closest fs iconname icon_size icon_scale rest (closest_filename, minimal_size))
      else lookup_closest fs iconname icon_size icon_scale rest (closest_filename, minimal_size))"

text \<open>
  \<open>closest_filename\<close> starts as the empty string and is returned when it
  \<open>is not None\<close>. Iterating over \<open>theme.directories\<close> when it is \<open>None\<close> raises.
\<close>

definition lookup_icon :: "fs \<Rightarrow> string \<Rightarrow> int \<Rightarrow> int \<Rightarrow> Theme \<Rightarrow> error + string option" where
  "lookup_icon fs iconname icon_size icon_scale theme =
     (case directories theme of
        None \<Rightarrow> Inl TypeError
      | Some dirs \<Rightarrow>
          (case lookup_exact fs iconname icon_size icon_scale (List.product dirs extensions) of
             Inl e \<Rightarrow> Inl e
           | Inr (Some filename) \<Rightarrow> Inr (Some filename)
           | Inr None \<Rightarrow>
               (case lookup_closest fs iconname icon_size icon_scale (List.product dirs extensions)
                       (Some '''', sys_maxsize) of
                  Inl e \<Rightarrow> Inl e
                | Inr (closest_filename, minimal_size) \<Rightarrow>
                    if closest_filename \<noteq> None then Inr closest_filename else Inr None)))"

text \<open>
  \<open>find_icon_helper\<close>, with the loop over \<open>theme.parents\<close> as \<open>find_icon_parents\<close>; the
  test before the loop is \<open>theme.has_parents()\<close>.
\<close>

fun find_icon_helper :: "fs \<Rightarrow> string \<Rightarrow> int \<Rightarrow> int \<Rightarrow> Theme \<Rightarrow> error + string option"
  and find_icon_parents :: "fs \<Rightarrow> string \<Rightarrow> int \<Rightarrow> int \<Rightarrow> Theme list \<Rightarrow> error + string option"
  where
  "find_icon_helper fs icon icon_size icon_scale (Theme p i ps ds) =
     (case lookup_icon fs icon icon_size icon_scale (Theme p i ps ds) of
        Inl e \<Rightarrow> Inl e
      | Inr (Some filename) \<Rightarrow> Inr (Some filename)
      | Inr None \<Rightarrow>
          (case ps of
             None \<Rightarrow> Inr None
           | Some parent_list \<Rightarrow>
               if length parent_list \<noteq> 0
               then find_icon_parents fs icon icon_size icon_scale parent_list
               else Inr None))"
| "find_icon_parents fs icon icon_size icon_scale [] = Inr None"
| "find_icon_parents fs icon icon_size icon_scale (parent # rest) =
     (case find_icon_helper fs icon icon_size icon_scale parent of
        Inl e \<Rightarrow> Inl e
      | Inr (Some filename) \<Rightarrow> Inr (Some filename)
      | Inr None \<Rightarrow> find_icon_parents fs icon icon_size icon_scale rest)"

text \<open>\<open>find_icon\<close>; the first argument is the recursion limit under which it runs.\<close>

definition find_icon :: "nat \<Rightarrow> fs \<Rightarrow> string \<Rightarrow> string \<Rightarrow> int \<Rightarrow> int \<Rightarrow> error + string option"
  where
  "find_icon n fs theme_name icon icon_size icon_scale =
     (case check_cache_before_creation n fs (get_theme_directory fs theme_name) of
        Inl e \<Rightarrow> Inl e
      | Inr theme \<Rightarrow>
          (case find_icon_helper fs icon icon_size icon_scale theme of
             Inl e \<Rightarrow> Inl e
           | Inr (Some filename) \<Rightarrow> Inr (Some filename)
           | Inr None \<Rightarrow>
               (case check_cache_before_creation n fs (get_theme_directory fs ''hicolor'') of
                  Inl e \<Rightarrow> Inl e
                | Inr hicolor \<Rightarrow>
                    (case find_icon_helper fs icon icon_size icon_scale hicolor of
                       Inl e \<Rightarrow> Inl e
                     | Inr (Some filename) \<Rightarrow> Inr (Some filename)
                     | Inr None \<Rightarrow> Inr None))))"

section \<open>What an index file declares\<close>

text \<open>
  The \<open>key=value\<close> pairs of an index file that the loop of \<open>Theme.__init__\<close> can reach:
  those of the lines before the first section header other than \<open>[Icon Theme]\<close> (the
  first line for which \<open>ends_header\<close> holds, where the loop breaks) that split at \<open>=\<close>
  into exactly two parts. \<open>inherits_names\<close> are the theme names of its
  \<open>Inherits\<close> pairs, \<open>index_name\<close> the name under which the index file of a theme
  directory is opened.
\<close>

definition ends_header :: "string \<Rightarrow> bool" where
  "ends_header l \<longleftrightarrow> startswith (strip l) ''['' \<and> strip l \<noteq> ''[Icon Theme]''"

fun header_pairs :: "string list \<Rightarrow> (string \<times> string) list" where
  "header_pairs [] = []"
| "header_pairs (l # ls) =
     (let line = strip l in
      if startswith line ''['' \<and> line \<noteq> ''[Icon Theme]'' then []
      else (case split CHR ''='' line of [k, v] \<Rightarrow> [(k, v)] | _ \<Rightarrow> []) @ header_pairs ls)"


definition index_name :: "Path \<Rightarrow> string" where
  "index_name theme_directory = str (joinpath theme_directory (Path_of ''index.theme''))"



section \<open>Concrete inputs\<close>

text \<open>
  The lines of a text file as iteration over it yields them, each with its newline, and a
  file system given by its directories, its text files and its other files. Every theme
  below is installed under \<open>/usr/share/icons\<close>.
\<close>

definition file_lines :: "string list \<Rightarrow> string list" where
  "file_lines ls = map (\<lambda>l. l @ [CHR 0x0A]) ls"

definition mk_fs :: "string list \<Rightarrow> (string \<times> string list) list \<Rightarrow> string list \<Rightarrow> fs" where
  "mk_fs dirs files icons =
     \<lparr>home = Path_of ''/home/user'',
      is_dir = (\<lambda>s. s \<in> set dirs),
      read_lines = map_of files,
      path_exists = (\<lambda>s. s \<in> set icons \<or> s \<in> set dirs \<or> s \<in> set (map fst files))\<rparr>"

definition dir_of :: "string \<Rightarrow> Path" where
  "dir_of theme_name = Path ''/'' [''usr'', ''share'', ''icons'', theme_name]"

text \<open>The values \<open>Theme.__init__\<close> and \<open>ThemeSubdirectory.__init__\<close> build there.\<close>

definition theme_at ::
  "string \<Rightarrow> Theme list option \<Rightarrow> ThemeSubdirectory list option \<Rightarrow> Theme" where
  "theme_at theme_name ps ds =
     Theme (dir_of theme_name)
           (Path ''/'' [''usr'', ''share'', ''icons'', theme_name, ''index.theme'']) ps ds"

definition fixed_subdir :: "string \<Rightarrow> string \<Rightarrow> int \<Rightarrow> ThemeSubdirectory" where
  "fixed_subdir theme_name rel n =
     \<lparr>relpath = Path [] [rel], theme_path = dir_of theme_name,
      subdir_type = Some Fixed, subdir_size = Some n, min_size = None, max_size = None,
      scale = Some 1\<rparr>"

text \<open>Subdirectories on their own: Scalable 16 to 48, Fixed 48, Scalable 100 to 60.\<close>

definition scalable_16_48 :: ThemeSubdirectory where
  "scalable_16_48 =
     \<lparr>relpath = Path_of ''scalable'', theme_path = dir_of ''A'',
      subdir_type = Some Scalable, subdir_size = Some 32, min_size = Some 16,
      max_size = Some 48, scale = Some 1\<rparr>"

definition fixed_48 :: ThemeSubdirectory where
  "fixed_48 = fixed_subdir ''A'' ''48x48'' 48"








text \<open>
  Theme A inherits B and has one subdirectory, 16x16, with no icon in it; B and hicolor
  hold \<open>X.png\<close> in their Fixed subdirectory 64x64; L has no parents and no icons; M names
  a parent, \<open>missing\<close>, that is not installed. No file named \<open>Y\<close> exists.
  \<open>rank_inherit\<close> ranks the index files: 1 for A and M, which inherit, 0 otherwise.
\<close>

definition index_A :: "string list" where
  "index_A = file_lines [''[Icon Theme]'', ''Name=A'', ''Inherits=B'', ''Directories=16x16'', '''',
                         ''[16x16]'', ''Size=16'', ''Type=Fixed'']"

definition index_B :: "string list" where
  "index_B = file_lines [''[Icon Theme]'', ''Name=B'', ''Directories=64x64'', '''',
                         ''[64x64]'', ''Size=64'', ''Type=Fixed'']"

definition index_L :: "string list" where
  "index_L = file_lines [''[Icon Theme]'', ''Name=L'', ''Directories=16x16'', '''',
                         ''[16x16]'', ''Size=16'', ''Type=Fixed'']"

definition index_M :: "string list" where
  "index_M = file_lines [''[Icon Theme]'', ''Name=M'', ''Inherits=missing,B'',
                         ''Directories=16x16'', '''', ''[16x16]'', ''Size=16'', ''Type=Fixed'']"

definition index_hicolor :: "string list" where
  "index_hicolor = file_lines [''[Icon Theme]'', ''Name=Hicolor'', ''Directories=64x64'', '''',
                               ''[64x64]'', ''Size=64'', ''Type=Fixed'']"

definition files_inherit :: "(string \<times> string list) list" where
  "files_inherit =
     [(''/usr/share/icons/A/index.theme'', index_A),
      (''/usr/share/icons/B/index.theme'', index_B),
      (''/usr/share/icons/L/index.theme'', index_L),
      (''/usr/share/icons/M/index.theme'', index_M),
      (''/usr/share/icons/hicolor/index.theme'', index_hicolor)]"

definition fs_inherit :: fs where
  "fs_inherit = mk_fs
     [''/usr/share/icons/A'', ''/usr/share/icons/B'', ''/usr/share/icons/L'',
      ''/usr/share/icons/M'', ''/usr/share/icons/hicolor'']
     files_inherit
     [''/usr/share/icons/B/64x64/X.png'', ''/usr/share/icons/hicolor/64x64/X.png'']"


definition theme_B :: Theme where
  "theme_B = theme_at ''B'' None (Some [fixed_subdir ''B'' ''64x64'' 64])"

definition theme_A :: Theme where
  "theme_A = theme_at ''A'' (Some [theme_B]) (Some [fixed_subdir ''A'' ''16x16'' 16])"

definition theme_L :: Theme where
  "theme_L = theme_at ''L'' None (Some [fixed_subdir ''L'' ''16x16'' 16])"

definition theme_hicolor :: Theme where
  "theme_hicolor = theme_at ''hicolor'' None (Some [fixed_subdir ''hicolor'' ''64x64'' 64])"

text \<open>
  Theme N declares a parent and has a section for a subdirectory, but no \<open>Directories\<close>
  key.
\<close>

definition index_N :: "string list" where
  "index_N = file_lines [''[Icon Theme]'', ''Name=N'', ''Inherits=hicolor'', '''',
                         ''[16x16]'', ''Size=16'', ''Type=Fixed'']"

definition fs_nodirs :: fs where
  "fs_nodirs = mk_fs
     [''/usr/share/icons/N'', ''/usr/share/icons/hicolor'']
     [(''/usr/share/icons/N/index.theme'', index_N),
      (''/usr/share/icons/hicolor/index.theme'', index_hicolor)]
     [''/usr/share/icons/hicolor/64x64/X.png'']"

definition theme_N :: Theme where
  "theme_N = theme_at ''N'' (Some [theme_hicolor]) None"












section \<open>Reading the header of an index file\<close>

text \<open>\<open>find_icon_helper\<close> in the words of the source, with \<open>theme.has_parents()\<close>.\<close>

lemma find_icon_helper_has_parents:
  "find_icon_helper fs icon sz sc theme =
     (case lookup_icon fs icon sz sc theme of
        Inl e \<Rightarrow> Inl e
      | Inr (Some filename) \<Rightarrow> Inr (Some filename)
      | Inr None \<Rightarrow>
          if has_parents theme then find_icon_parents fs icon sz sc (the (parents theme))
          else Inr None)"
  by (cases theme) (auto simp: has_parents_def split: sum.splits option.splits)

lemma split_line_cases:
  obtains (pair) k v where "sl = [k, v]"
  | (other) "\<And>k v. sl \<noteq> [k, v]"
  by (cases sl rule: list.exhaust; auto) 

lemma theme_set_key_other:
  "(\<And>k v. sl \<noteq> [k, v]) \<Longrightarrow> theme_set_key f fs sl self = Inr self"
  by (auto simp: theme_set_key_def split: list.splits)

lemma header_pairs_Cons:
  "header_pairs (l # ls) =
     (if ends_header l then []
      else (case split CHR ''='' (strip l) of [k, v] \<Rightarrow> [(k, v)] | _ \<Rightarrow> []) @ header_pairs ls)"
  by (simp add: ends_header_def Let_def)

lemma theme_lines_Cons:
  "theme_lines f fs (l # ls) self =
     (if ends_header l then Inr self
      else (case theme_set_key f fs (split CHR ''='' (strip l)) self of
              Inl e \<Rightarrow> Inl e
            | Inr self' \<Rightarrow> theme_lines f fs ls self'))"
  by (simp add: ends_header_def Let_def)

declare header_pairs.simps(2) [simp del] theme_lines.simps(2) [simp del]

lemma Theme_init_Some:
  "Theme_init (Suc n) fs (Some d) =
     (case read_lines fs (index_name d) of
        None \<Rightarrow> Inl OSError
      | Some ls \<Rightarrow>
          theme_lines (from_theme_name n fs) fs ls
            (Theme d (joinpath d (Path_of ''index.theme'')) None None))"
  by (simp add: index_name_def Let_def)

declare Theme_init.simps(3) [simp del]

text \<open>With \<open>THEME_CACHE\<close> empty, a lookup through the cache is a construction.\<close>

lemma check_cache_before_creation_eq [simp]:
  "check_cache_before_creation n fs d = Theme_init n fs d"
  by (simp add: THEME_CACHE_def)


declare check_cache_before_creation.simps [simp del] from_theme_name.simps [simp del]

section \<open>Exact size match\<close>

text \<open>
  C7. \<open>directory_matches_size\<close> is false when the subdirectory's scale differs from the
  requested scale; at the requested scale a Fixed subdirectory matches exactly iff its
  size is the requested size, and a Scalable subdirectory with bounds \<open>lo\<close> and \<open>hi\<close>
  iff \<open>lo \<le> icon_size \<le> hi\<close>.
\<close>

theorem directory_matches_size_exact:
  "(scale subdir \<noteq> Some icon_scale \<longrightarrow>
      directory_matches_size subdir icon_size icon_scale = Inr (Some False)) \<and>
   (scale subdir = Some icon_scale \<and> subdir_type subdir = Some Fixed \<longrightarrow>
      directory_matches_size subdir icon_size icon_scale =
        Inr (Some (subdir_size subdir = Some icon_size))) \<and>
   (scale subdir = Some icon_scale \<and> subdir_type subdir = Some Scalable \<and>
    min_size subdir = Some lo \<and> max_size subdir = Some hi \<longrightarrow>
      directory_matches_size subdir icon_size icon_scale =
        Inr (Some (lo \<le> icon_size \<and> icon_size \<le> hi)))"
  by (simp add: directory_matches_size_def)

text \<open>
  The Scalable subdirectory 16 to 48 at scale 1 matches 16, 32 and 48 and not 64, nor 32
  at scale 2; the Fixed subdirectory 48 matches 48 and not 47.
\<close>

theorem directory_matches_size_exact_witness:
  "directory_matches_size scalable_16_48 16 1 = Inr (Some True) \<and>
   directory_matches_size scalable_16_48 32 1 = Inr (Some True) \<and>
   directory_matches_size scalable_16_48 48 1 = Inr (Some True) \<and>
   directory_matches_size scalable_16_48 64 1 = Inr (Some False) \<and>
   directory_matches_size scalable_16_48 32 2 = Inr (Some False) \<and>
   directory_matches_size fixed_48 48 1 = Inr (Some True) \<and>
   directory_matches_size fixed_48 47 1 = Inr (Some False)"
  using directory_matches_size_exact [of scalable_16_48 1 16 16 48]
        directory_matches_size_exact [of scalable_16_48 1 32 16 48]
        directory_matches_size_exact [of scalable_16_48 1 48 16 48]
        directory_matches_size_exact [of scalable_16_48 1 64 16 48]
        directory_matches_size_exact [of scalable_16_48 2 32 16 48]
        directory_matches_size_exact [of fixed_48 1 48]
        directory_matches_size_exact [of fixed_48 1 47]
  by (simp add: scalable_16_48_def fixed_48_def fixed_subdir_def)

section \<open>Distance and the closest file\<close>











section \<open>What the lookup returns when no file exists\<close>

text \<open>
  \<open>lookup_icon\<close> never returns \<open>None\<close>: \<open>closest_filename\<close> starts as a string and
  stays one, so the test \<open>closest_filename is not None\<close> always holds and the final
  \<open>return None\<close> is never reached. Hence neither \<open>find_icon_helper\<close> nor \<open>find_icon\<close>
  returns \<open>None\<close>, the loop over the parents is never entered and hicolor is never
  searched after a theme that could be built.
\<close>

lemma lookup_closest_fst_Some:
  "lookup_closest fs icon sz sc cands (Some c, m) = Inr (r, m') \<Longrightarrow> r \<noteq> None"
  by (induction cands arbitrary: c m) (auto split: if_splits sum.splits)

lemma lookup_icon_never_absent: "lookup_icon fs icon sz sc theme \<noteq> Inr None"
  by (auto simp: lookup_icon_def split: option.splits sum.splits dest: lookup_closest_fst_Some)

lemma find_icon_helper_never_absent:
  "find_icon_helper fs icon sz sc theme \<noteq> Inr None"
  using lookup_icon_never_absent [of fs icon sz sc theme]
  by (cases theme) (auto split: sum.splits option.splits)

lemma find_icon_never_absent: "find_icon n fs theme_name icon sz sc \<noteq> Inr None"
  using find_icon_helper_never_absent
  by (auto simp: find_icon_def split: sum.splits option.splits)

lemma lookup_closest_no_file:
  "\<forall>(sd, e) \<in> set cands. \<not> path_exists fs (icon_filename sd icon e) \<Longrightarrow>
   lookup_closest fs icon sz sc cands (c, m) = Inr (c, m)"
  by (induction cands) auto

lemma lookup_exact_no_file:
  "\<forall>(sd, e) \<in> set cands. \<not> path_exists fs (icon_filename sd icon e) \<Longrightarrow>
   lookup_exact fs icon sz sc cands \<noteq> Inr (Some f)"
  by (induction cands) (auto split: sum.splits)

text \<open>
  C1 fails on the code. Theme A has no file for icon X in its own subdirectory and
  inherits B, which has \<open>X.png\<close> in a subdirectory that matches size 64 exactly. The
  lookup in A returns the empty string, not \<open>None\<close>, and \<open>find_icon\<close> returns the empty
  string instead of the path in B.
\<close>

theorem lookup_icon_empty_string_not_absent:
  "from_theme_name 5 fs_inherit ''A'' = Inr theme_A \<and>
   lookup_icon fs_inherit ''X'' 64 1 theme_A = Inr (Some '''') \<and>
   lookup_icon fs_inherit ''X'' 64 1 theme_B = Inr (Some ''/usr/share/icons/B/64x64/X.png'') \<and>
   find_icon 5 fs_inherit ''A'' ''X'' 64 1 = Inr (Some '''')"
  by code_simp

text \<open>
  C5 fails on the code. Theme L and its (no) ancestors hold no file for icon X, and the
  search of hicolor would give \<open>/usr/share/icons/hicolor/64x64/X.png\<close>; \<open>find_icon\<close>
  returns the empty string that the search of L gave and never searches hicolor.
\<close>

theorem find_icon_skips_hicolor:
  "from_theme_name 5 fs_inherit ''L'' = Inr theme_L \<and>
   find_icon_helper fs_inherit ''X'' 64 1 theme_L = Inr (Some '''') \<and>
   from_theme_name 5 fs_inherit ''hicolor'' = Inr theme_hicolor \<and>
   find_icon_helper fs_inherit ''X'' 64 1 theme_hicolor =
     Inr (Some ''/usr/share/icons/hicolor/64x64/X.png'') \<and>
   find_icon 5 fs_inherit ''L'' ''X'' 64 1 = Inr (Some '''')"
  by code_simp

text \<open>
  C6 fails on the code. No theme holds a file for icon Y: \<open>find_icon\<close> returns the empty
  string, which is neither an absolute path of an existing file nor \<open>None\<close>.
\<close>

theorem find_icon_returns_empty_string:
  "find_icon 5 fs_inherit ''L'' ''Y'' 64 1 = Inr (Some '''') \<and>
   find_icon 5 fs_inherit ''hicolor'' ''Y'' 64 1 = Inr (Some '''')"
  by code_simp

section \<open>A theme that is not installed\<close>

text \<open>
  C4 fails on the code. \<open>get_theme_directory\<close> returns \<open>None\<close> for a name that has no
  directory; \<open>check_cache_before_creation\<close> passes it to \<open>Theme\<close>, whose first division
  raises \<open>TypeError\<close>. So \<open>find_icon\<close> raises for the requested theme \<open>nosuch\<close> without
  searching hicolor, and building M raises at its parent \<open>missing\<close> although its second
  parent B and hicolor hold the icon.
\<close>

theorem missing_theme_raises:
  "get_theme_directory fs_inherit ''nosuch'' = None \<and>
   find_icon 5 fs_inherit ''nosuch'' ''X'' 64 1 = Inl TypeError \<and>
   get_theme_directory fs_inherit ''missing'' = None \<and>
   from_theme_name 5 fs_inherit ''M'' = Inl TypeError \<and>
   find_icon 5 fs_inherit ''M'' ''X'' 64 1 = Inl TypeError"
  by code_simp

section \<open>The cache\<close>

text \<open>
  C2 fails on the code. \<open>THEME_CACHE\<close> has no entry for any directory, whatever was built
  before, so every call of \<open>check_cache_before_creation\<close> builds the theme anew from its
  index file.
\<close>

theorem cache_never_hit:
  "THEME_CACHE (str_opt theme_directory) = None \<and>
   check_cache_before_creation n fs theme_directory = Theme_init n fs theme_directory"
  by (simp add: THEME_CACHE_def)


section \<open>A theme without a Directories key\<close>

lemma theme_set_key_keeps_directories:
  assumes "theme_set_key f fs sl self = Inr t" and "directories self = None"
    and "''Directories'' \<notin> fst ` set (case sl of [k, v] \<Rightarrow> [(k, v)] | _ \<Rightarrow> [])"
  shows "directories t = None"
proof (cases sl rule: split_line_cases)
  case (pair k v)
  with assms show ?thesis
    by (auto simp: theme_set_key_def Let_def split: sum.splits if_splits)
next
  case other
  with assms show ?thesis by (simp add: theme_set_key_other)
qed

lemma theme_lines_keeps_directories:
  "theme_lines f fs ls self = Inr t \<Longrightarrow> directories self = None \<Longrightarrow>
   ''Directories'' \<notin> fst ` set (header_pairs ls) \<Longrightarrow> directories t = None"
proof (induction ls arbitrary: self)
  case Nil
  then show ?case by simp
next
  case (Cons l ls)
  show ?case
  proof (cases "ends_header l")
    case True
    with Cons.prems show ?thesis by (simp add: theme_lines_Cons)
  next
    case False
    with Cons.prems(1) obtain self' where
      step: "theme_set_key f fs (split CHR ''='' (strip l)) self = Inr self'"
      and rest: "theme_lines f fs ls self' = Inr t"
      by (auto simp: theme_lines_Cons split: sum.splits)
    from False Cons.prems(3) have
      k: "''Directories'' \<notin> fst ` set (case split CHR ''='' (strip l) of [k, v] \<Rightarrow> [(k, v)] | _ \<Rightarrow> [])"
      and r: "''Directories'' \<notin> fst ` set (header_pairs ls)"
      by (auto simp: header_pairs_Cons)
    from step Cons.prems(2) k have d: "directories self' = None"
      by (rule theme_set_key_keeps_directories)
    from rest d r show ?thesis by (rule Cons.IH)
  qed
qed

lemma lookup_icon_no_directories:
  "directories theme = None \<Longrightarrow> lookup_icon fs icon sz sc theme = Inl TypeError"
  by (simp add: lookup_icon_def)

lemma find_icon_helper_no_directories:
  "directories theme = None \<Longrightarrow> find_icon_helper fs icon sz sc theme = Inl TypeError"
  by (cases theme) (simp add: lookup_icon_def)

text \<open>
  C10. When the lines of an index file that \<open>Theme.__init__\<close> reads hold no
  \<open>Directories\<close> key, the theme it builds has \<open>directories = None\<close>, and
  \<open>lookup_icon\<close> and \<open>find_icon_helper\<close> on that theme raise \<open>TypeError\<close> (iteration over
  \<open>None\<close>) instead of returning \<open>None\<close>.
\<close>

theorem no_Directories_key:
  assumes "Theme_init n fs (Some theme_directory) = Inr theme"
    and "read_lines fs (index_name theme_directory) = Some ls"
    and "''Directories'' \<notin> fst ` set (header_pairs ls)"
  shows "directories theme = None \<and>
         lookup_icon fs icon icon_size icon_scale theme = Inl TypeError \<and>
         find_icon_helper fs icon icon_size icon_scale theme = Inl TypeError"
proof -
  from assms(1) obtain m where n: "n = Suc m"
    by (cases n) auto
  from assms(1,2) have
    "theme_lines (from_theme_name m fs) fs ls
       (Theme theme_directory (joinpath theme_directory (Path_of ''index.theme'')) None None)
     = Inr theme"
    unfolding n Theme_init_Some by simp
  then have "directories theme = None"
    by (rule theme_lines_keeps_directories) (simp_all add: assms(3))
  then show ?thesis
    by (simp add: lookup_icon_no_directories find_icon_helper_no_directories)
qed


text \<open>
  Theme N: built with its parent hicolor, no subdirectory list, and the lookup raises, as
  \<open>find_icon\<close> for N does, although hicolor holds the icon.
\<close>

theorem no_Directories_key_witness:
  "Theme_init 2 fs_nodirs (Some (Path_of ''/usr/share/icons/N'')) = Inr theme_N \<and>
   directories theme_N = None \<and>
   lookup_icon fs_nodirs ''X'' 64 1 theme_N = Inl TypeError \<and>
   find_icon_helper fs_nodirs ''X'' 64 1 theme_N = Inl TypeError \<and>
   find_icon 2 fs_nodirs ''N'' ''X'' 64 1 = Inl TypeError"
proof -
  have found: "find_icon 2 fs_nodirs ''N'' ''X'' 64 1 = Inl TypeError"
    by code_simp
  have built: "Theme_init 2 fs_nodirs (Some (Path_of ''/usr/share/icons/N'')) = Inr theme_N"
    by code_simp
  have lines: "read_lines fs_nodirs (index_name (Path_of ''/usr/share/icons/N'')) = Some index_N"
    by code_simp
  have keys: "''Directories'' \<notin> fst ` set (header_pairs index_N)"
    by code_simp
  from no_Directories_key [OF built lines keys] built found show ?thesis
    by simp
qed


section \<open>Inheritance: cycles and chains\<close>









































section \<open>Parsing an index file\<close>












end
